theory Spec2Isabelle
  imports Complex_Main "HOL-Library.Word"
begin

section \<open>Python values, exceptions and sequence indexing\<close>

text \<open>
  The module \<^verbatim>\<open>protein_atlas/__init__.py\<close> is embedded function by function. Every
  exception the Python can raise is a value \<open>Inl e\<close> of the result type \<open>error + 'a\<close>;
  a normal return is \<open>Inr v\<close>.
\<close>

datatype error =
    TypeError | ValueError | IndexError | KeyError | UnboundLocalError | AttributeError
  | ZeroDivisionError | FileNotFoundError | OverflowError | StopIteration

text \<open>
  The values a caller can pass as the \<^verbatim>\<open>class_\<close> argument of \<^verbatim>\<open>any\<close>: the kinds the
  \<^verbatim>\<open>isinstance\<close> chain tells apart, and some it does not know.
\<close>

datatype pyobj =
    PyInt int
  | PyStr string
  | PyList "pyobj list"
  | PyTuple "pyobj list"
  | PdIndex "string list"
  | PyNone

text \<open>\<^verbatim>\<open>xs[i]\<close> on a Python list: a negative index counts from the end, anything
  outside \<open>[-len, len)\<close> raises IndexError.\<close>

definition py_getitem :: "'a list \<Rightarrow> int \<Rightarrow> error + 'a" where
  "py_getitem xs i =
     (if 0 \<le> i \<and> i < int (length xs) then Inr (xs ! nat i)
      else if - int (length xs) \<le> i \<and> i < 0 then Inr (xs ! nat (int (length xs) + i))
      else Inl IndexError)"

text \<open>Running a list of fallible steps in order; the first exception ends the loop.\<close>

fun sequence_res :: "(error + 'a) list \<Rightarrow> error + 'a list" where
  "sequence_res [] = Inr []"
| "sequence_res (r # rs) =
     (case r of
        Inl e \<Rightarrow> Inl e
      | Inr v \<Rightarrow> (case sequence_res rs of Inl e \<Rightarrow> Inl e | Inr vs \<Rightarrow> Inr (v # vs)))"

text \<open>\<^verbatim>\<open>a[idx]\<close> with an integer array \<^verbatim>\<open>idx\<close> on the first axis of a numpy array or a
  pandas Index: each entry is looked up like a list index, the first one out of bounds
  raises IndexError.\<close>

definition take_rows :: "'a list \<Rightarrow> int list \<Rightarrow> error + 'a list" where
  "take_rows xs idx = sequence_res (map (py_getitem xs) idx)"

section \<open>ProteinAtlas: the constants of the dataset\<close>

definition classes :: "string list" where
  "classes =
     [''Nucleoplasm'', ''Nuclear membrane'', ''Nucleoli'',
      ''Nucleoli fibrillar center'', ''Nuclear speckles'',
      ''Nuclear bodies'', ''Endoplasmic reticulum'', ''Golgi apparatus'',
      ''Peroxisomes'', ''Endosomes'', ''Lysosomes'',
      ''Intermediate filaments'', ''Actin filaments'',
      ''Focal adhesion sites'', ''Microtubules'', ''Microtubule ends'',
      ''Cytokinetic bridge'', ''Mitotic spindle'',
      ''Microtubule organizing center'', ''Centrosome'', ''Lipid droplets'',
      ''Plasma membrane'', ''Cell junctions'', ''Mitochondria'',
      ''Aggresome'', ''Cytosol'', ''Cytoplasmic bodies'', ''Rods & rings'']"

definition n_classes :: nat where
  "n_classes = length classes"

definition channels :: "string list" where
  "channels = [''Microtubules'', ''Antibody'', ''Nucleus'', ''Endoplasmic Reticulum'']"

definition channel_colors :: "string list" where
  "channel_colors = [''red'', ''green'', ''blue'', ''yellow'']"

definition n_channels :: nat where
  "n_channels = length channels"

definition nrows :: nat where
  "nrows = 512"

definition ncols :: nat where
  "ncols = 512"

text \<open>
  An instance of \<^verbatim>\<open>ProteinAtlas\<close>. The base class stores \<^verbatim>\<open>img_path\<close>; both subclasses
  add \<^verbatim>\<open>index\<close>, the ordered sample ids, and \<^verbatim>\<open>Train\<close> adds the label table and the
  fitted binarizer (here its \<^verbatim>\<open>classes_\<close>). The colormaps are rendering only and left out.
\<close>

record dataframe =
  df_index :: "string list"
  df_columns :: "string list"
  df_values :: "int list list"

record ProteinAtlas =
  img_path :: string
  index :: "string list"

record Train = ProteinAtlas +
  mlb :: "int list"
  labels :: dataframe

section \<open>Train: reading the targets and binarizing them\<close>

text \<open>\<^verbatim>\<open>s.split(" ")\<close>: split at every single space; the empty string gives \<^verbatim>\<open>[""]\<close>,
  two spaces in a row give an empty token.\<close>

fun split_on :: "char \<Rightarrow> string \<Rightarrow> string list" where
  "split_on sep [] = [[]]"
| "split_on sep (c # cs) =
     (if c = sep then [] # split_on sep cs
      else (case split_on sep cs of
              [] \<Rightarrow> [[c]]
            | t # ts \<Rightarrow> (c # t) # ts))"

text \<open>
  \<^verbatim>\<open>np.array(tokens, dtype=np.int32)\<close> converts each token as \<^verbatim>\<open>int(token)\<close> does:
  white space around the literal is dropped (the characters 9 to 13 and the space,
  32), one sign is allowed, then decimal digits, with single underscores allowed
  between digits. Anything else is the ValueError "invalid literal for int()". This is
  the conversion of ASCII text without the character 0; in other text \<^verbatim>\<open>int\<close> also
  reads the digits and spaces of other scripts, which a \<open>char\<close> cannot hold.
\<close>

definition is_py_space :: "char \<Rightarrow> bool" where
  "is_py_space c =
     ((9 \<le> (of_char c :: nat) \<and> (of_char c :: nat) \<le> 13) \<or> (of_char c :: nat) = 32)"

definition is_digit :: "char \<Rightarrow> bool" where
  "is_digit c = (48 \<le> (of_char c :: nat) \<and> (of_char c :: nat) \<le> 57)"

definition digit_val :: "char \<Rightarrow> nat" where
  "digit_val c = (of_char c :: nat) - 48"

text \<open>\<open>py_digits d acc s\<close> reads the digits of \<open>s\<close>; \<open>d\<close> tells whether the character
  just read was a digit, so that an underscore or the end may follow.\<close>

fun py_digits :: "bool \<Rightarrow> nat \<Rightarrow> string \<Rightarrow> nat option" where
  "py_digits d acc [] = (if d then Some acc else None)"
| "py_digits d acc (c # cs) =
     (if is_digit c then py_digits True (10 * acc + digit_val c) cs
      else if c = CHR ''_'' \<and> d then py_digits False acc cs
      else None)"

definition py_strip :: "string \<Rightarrow> string" where
  "py_strip s = rev (dropWhile is_py_space (rev (dropWhile is_py_space s)))"

definition py_int :: "string \<Rightarrow> int option" where
  "py_int s =
     (case py_strip s of
        [] \<Rightarrow> None
      | c # cs \<Rightarrow>
          if c = CHR ''-'' then map_option (\<lambda>n. - int n) (py_digits False 0 cs)
          else if c = CHR ''+'' then map_option int (py_digits False 0 cs)
          else map_option int (py_digits False 0 (c # cs)))"

text \<open>Storing into an \<^verbatim>\<open>int32\<close> array: a value outside the 32-bit range is an
  OverflowError (NumPy 2; older releases wrapped values that fit a C long).\<close>

definition to_int32 :: "string \<Rightarrow> error + int" where
  "to_int32 tok =
     (case py_int tok of
        None \<Rightarrow> Inl ValueError
      | Some v \<Rightarrow> if - (2 ^ 31) \<le> v \<and> v < 2 ^ 31 then Inr v else Inl OverflowError)"

text \<open>
  A value of the \<^verbatim>\<open>Target\<close> column as \<^verbatim>\<open>pd.read_csv\<close> returns it. The field of a
  sample is a string, unless pandas took the field for a missing value (an empty field
  is read as NaN, a float) or took the whole column for numbers or booleans (a column
  in which every field is one number).
\<close>

datatype cell = CellStr string | CellNaN | CellNumber rat | CellBool bool

text \<open>\<^verbatim>\<open>read_target = lambda s: np.array(s.split(" "), dtype=np.int32)\<close>. Only a string
  has the method \<^verbatim>\<open>split\<close>; on a float, an int or a bool the attribute lookup raises
  AttributeError.\<close>

fun read_target :: "cell \<Rightarrow> error + int list" where
  "read_target (CellStr s) = sequence_res (map to_int32 (split_on CHR '' '' s))"
| "read_target c = Inl AttributeError"

text \<open>
  \<^verbatim>\<open>MultiLabelBinarizer().fit_transform(targets)\<close> (scikit-learn, constructed with no
  \<^verbatim>\<open>classes\<close> argument): the fitted \<^verbatim>\<open>classes_\<close> are the labels that occur in the
  data, sorted and without duplicates; the row of a sample has one column per fitted
  class, 1 where the sample carries the class.
\<close>

definition mlb_fit :: "int list list \<Rightarrow> int list" where
  "mlb_fit targets = sort (remdups (concat targets))"

definition mlb_transform :: "int list \<Rightarrow> int list list \<Rightarrow> int list list" where
  "mlb_transform cls targets =
     map (\<lambda>t. map (\<lambda>c. if c \<in> set t then 1 else 0) cls) targets"

text \<open>\<^verbatim>\<open>pd.DataFrame(data, index, columns)\<close> on a 2-d array: the number of index entries
  and of column names must match the shape of the data, else ValueError. The shape of
  the binarizer's output is (number of samples, number of fitted classes).\<close>

definition DataFrame :: "nat \<Rightarrow> int list list \<Rightarrow> string list \<Rightarrow> string list \<Rightarrow> error + dataframe" where
  "DataFrame width data idx cols =
     (if length idx = length data \<and> length cols = width
      then Inr \<lparr>df_index = idx, df_columns = cols, df_values = data\<rparr>
      else Inl ValueError)"

text \<open>
  \<^verbatim>\<open>Train.__init__\<close>. The paths come from the module \<^verbatim>\<open>install\<close>, and the csv file is
  read by pandas; both are parameters here: the image directory and the rows of the
  table that \<^verbatim>\<open>pd.read_csv\<close> returns, as (Id, Target) pairs in file order.
\<close>

definition Train_init :: "string \<Rightarrow> (string \<times> cell) list \<Rightarrow> error + Train" where
  "Train_init train_path csv =
     (case sequence_res (map (\<lambda>row. read_target (snd row)) csv) of
        Inl e \<Rightarrow> Inl e
      | Inr targets \<Rightarrow>
          let cls = mlb_fit targets;
              lab = mlb_transform cls targets
          in (case DataFrame (length cls) lab (map fst csv) classes of
                Inl e \<Rightarrow> Inl e
              | Inr df \<Rightarrow>
                  Inr \<lparr>img_path = train_path, index = df_index df,
                       mlb = cls, labels = df\<rparr>))"


section \<open>ProteinAtlas.any: selecting samples by class\<close>

text \<open>
  \<^verbatim>\<open>labels.loc[:, names]\<close> selects columns by label, in the order of \<^verbatim>\<open>names\<close>; a label
  that is no column raises KeyError. \<^verbatim>\<open>labels.iloc[:, k]\<close> selects by position, a
  negative position counts from the end, a position out of bounds raises IndexError.
  Both give the positions of the selected columns.
\<close>

definition loc_columns :: "dataframe \<Rightarrow> string list \<Rightarrow> error + nat list" where
  "loc_columns df names =
     (case sequence_res
             (map (\<lambda>name.
                     (case filter (\<lambda>j. df_columns df ! j = name) [0..<length (df_columns df)] of
                        [] \<Rightarrow> Inl KeyError
                      | j # js \<Rightarrow> Inr (j # js)))
                  names) of
        Inl e \<Rightarrow> Inl e
      | Inr ps \<Rightarrow> Inr (concat ps))"

definition iloc_column :: "dataframe \<Rightarrow> int \<Rightarrow> error + nat" where
  "iloc_column df k =
     (if 0 \<le> k \<and> k < int (length (df_columns df)) then Inr (nat k)
      else if - int (length (df_columns df)) \<le> k \<and> k < 0
           then Inr (nat (int (length (df_columns df)) + k))
      else Inl IndexError)"

fun iloc_entry :: "dataframe \<Rightarrow> pyobj \<Rightarrow> error + nat" where
  "iloc_entry df (PyInt k) = iloc_column df k"
| "iloc_entry df _ = Inl IndexError"

text \<open>
  \<^verbatim>\<open>labels.iloc[:, key]\<close> with a list: pandas first makes an array of the list, and
  numpy raises ValueError when an entry is itself a sequence next to the int at the
  front (an inhomogeneous shape); an array that is not numeric (an entry is a string
  or None) is refused with IndexError; then the positions are checked.
\<close>

fun all_ints :: "pyobj list \<Rightarrow> bool" where
  "all_ints [] = True"
| "all_ints (PyInt k # xs) = all_ints xs"
| "all_ints (x # xs) = False"

fun is_sequence :: "pyobj \<Rightarrow> bool" where
  "is_sequence (PyList xs) = True"
| "is_sequence (PyTuple xs) = True"
| "is_sequence (PdIndex names) = True"
| "is_sequence x = False"

definition iloc_columns :: "dataframe \<Rightarrow> pyobj list \<Rightarrow> error + nat list" where
  "iloc_columns df key =
     (if list_ex is_sequence key then Inl ValueError
      else if \<not> all_ints key then Inl IndexError
      else sequence_res (map (iloc_entry df) key))"

text \<open>\<^verbatim>\<open>pd.DataFrame(selection == 1).any(axis = 1)\<close>: one boolean per row, true when some
  selected column of the row holds 1.\<close>

definition any_axis1 :: "dataframe \<Rightarrow> nat list \<Rightarrow> bool list" where
  "any_axis1 df cols = map (\<lambda>row. list_ex (\<lambda>j. row ! j = 1) cols) (df_values df)"

text \<open>\<^verbatim>\<open>labels.loc[mask]\<close> with a boolean mask: the rows whose mask entry is true, in
  order, with their index entries.\<close>

definition loc_rows :: "dataframe \<Rightarrow> bool list \<Rightarrow> dataframe" where
  "loc_rows df msk =
     \<lparr>df_index = map fst (filter snd (zip (df_index df) msk)),
      df_columns = df_columns df,
      df_values = map fst (filter snd (zip (df_values df) msk))\<rparr>"

text \<open>The \<^verbatim>\<open>if\<close>/\<^verbatim>\<open>elif\<close> chain of \<^verbatim>\<open>any\<close>, in the source's order. There is no
  \<^verbatim>\<open>else\<close>: for any other argument \<^verbatim>\<open>mask\<close> is never assigned and reading it in the
  last line raises UnboundLocalError. \<^verbatim>\<open>class_[0]\<close> on an empty list raises IndexError.\<close>

fun any_mask :: "dataframe \<Rightarrow> pyobj \<Rightarrow> error + bool list" where
  "any_mask df (PdIndex names) =
     (case loc_columns df names of Inl e \<Rightarrow> Inl e | Inr cols \<Rightarrow> Inr (any_axis1 df cols))"
| "any_mask df (PyInt k) =
     (case iloc_column df k of Inl e \<Rightarrow> Inl e | Inr col \<Rightarrow> Inr (any_axis1 df [col]))"
| "any_mask df (PyList []) = Inl IndexError"
| "any_mask df (PyList (PyInt k # rest)) =
     (case iloc_columns df (PyInt k # rest) of
        Inl e \<Rightarrow> Inl e
      | Inr cols \<Rightarrow> Inr (any_axis1 df cols))"
| "any_mask df (PyStr s) =
     (case loc_columns df [s] of Inl e \<Rightarrow> Inl e | Inr cols \<Rightarrow> Inr (any_axis1 df cols))"
| "any_mask df _ = Inl UnboundLocalError"

definition any :: "Train \<Rightarrow> pyobj \<Rightarrow> error + dataframe" where
  "any self class_arg =
     (case any_mask (labels self) class_arg of
        Inl e \<Rightarrow> Inl e
      | Inr msk \<Rightarrow> Inr (loc_rows (labels self) msk))"

section \<open>ProteinAtlas: paths and images\<close>

text \<open>
  \<^verbatim>\<open>img_path.joinpath(name)\<close> is kept as the pair of the directory and the file name. The
  image directory is a parameter: a partial map from paths to decoded single-band 8-bit
  images, a list of pixel rows. A path with no file raises FileNotFoundError.
\<close>

datatype path = Path string string

type_synonym band = "8 word list list"

type_synonym image_files = "path \<Rightarrow> band option"

type_synonym image = "rat list list list"

definition get_path :: "'a ProteinAtlas_scheme \<Rightarrow> string \<Rightarrow> int \<Rightarrow> error + path" where
  "get_path self sample_id channel_ix =
     (case py_getitem channel_colors channel_ix of
        Inl e \<Rightarrow> Inl e
      | Inr channel_color \<Rightarrow> Inr (Path (img_path self) (sample_id @ ''_'' @ channel_color @ ''.png'')))"

definition Image_open :: "image_files \<Rightarrow> path \<Rightarrow> error + band" where
  "Image_open files p = (case files p of None \<Rightarrow> Inl FileNotFoundError | Some b \<Rightarrow> Inr b)"

definition shape2 :: "'a list list \<Rightarrow> nat \<times> nat" where
  "shape2 b = (length b, (case b of [] \<Rightarrow> 0 | r # _ \<Rightarrow> length r))"

text \<open>\<^verbatim>\<open>np.stack(bands, axis=2)\<close>: the bands must have one shape (else ValueError); entry
  \<open>(r, c, k)\<close> of the result is entry \<open>(r, c)\<close> of band \<open>k\<close>.\<close>

definition np_stack_axis2 :: "'a list list list \<Rightarrow> error + 'a list list list" where
  "np_stack_axis2 bands =
     (case bands of
        [] \<Rightarrow> Inl ValueError
      | b # bs \<Rightarrow>
          if list_all (\<lambda>b'. shape2 b' = shape2 b) bs
          then Inr (map (\<lambda>r. map (\<lambda>c. map (\<lambda>b'. b' ! r ! c) bands) [0..<snd (shape2 b)])
                        [0..<fst (shape2 b)])
          else Inl ValueError)"

text \<open>The division by 255 is taken exactly, over the rationals; the float result is
  the nearest double of the same quotient.\<close>

definition get_image :: "image_files \<Rightarrow> 'a ProteinAtlas_scheme \<Rightarrow> string \<Rightarrow> error + image" where
  "get_image files self sample_id =
     (case sequence_res
             (map (\<lambda>chan_ix.
                     (case get_path self sample_id (int chan_ix) of
                        Inl e \<Rightarrow> Inl e
                      | Inr chan_path \<Rightarrow> Image_open files chan_path))
                  [0..<n_channels]) of
        Inl e \<Rightarrow> Inl e
      | Inr bands \<Rightarrow>
          (case np_stack_axis2 bands of
             Inl e \<Rightarrow> Inl e
           | Inr a \<Rightarrow> Inr (map (map (map (\<lambda>v. rat_of_nat (unat v) / 255))) a)))"

text \<open>
  \<^verbatim>\<open>X[sample_ix,:,:,:] = img\<close> stores an image into a slot of shape
  \<open>(nrows, ncols, n_channels)\<close>. numpy broadcasts an axis of length 1 and raises
  ValueError for any other mismatch. The last axis always has the \<open>n_channels\<close> bands.
\<close>

definition broadcast_axis :: "nat \<Rightarrow> 'a list \<Rightarrow> error + 'a list" where
  "broadcast_axis n xs =
     (if length xs = n then Inr xs
      else if length xs = 1 then Inr (replicate n (hd xs))
      else Inl ValueError)"

definition assign_slot :: "image \<Rightarrow> error + image" where
  "assign_slot img =
     (case broadcast_axis nrows img of
        Inl e \<Rightarrow> Inl e
      | Inr rows \<Rightarrow> sequence_res (map (broadcast_axis ncols) rows))"

definition get_images :: "image_files \<Rightarrow> 'a ProteinAtlas_scheme \<Rightarrow> string list \<Rightarrow> error + image list" where
  "get_images files self ids =
     sequence_res
       (map (\<lambda>sample_id. (case get_image files self sample_id of
                      Inl e \<Rightarrow> Inl e
                    | Inr img \<Rightarrow> assign_slot img))
            ids)"

text \<open>The shape of a batch tensor, read off the nested lists.\<close>

definition has_shape3 :: "'a list list list \<Rightarrow> nat \<Rightarrow> nat \<Rightarrow> nat \<Rightarrow> bool" where
  "has_shape3 img h w c =
     (length img = h \<and> list_all (\<lambda>row. length row = w \<and> list_all (\<lambda>px. length px = c) row) img)"

definition has_shape4 :: "'a list list list list \<Rightarrow> nat \<Rightarrow> nat \<Rightarrow> nat \<Rightarrow> nat \<Rightarrow> bool" where
  "has_shape4 X n h w c = (length X = n \<and> list_all (\<lambda>img. has_shape3 img h w c) X)"

definition values_in_unit :: "image \<Rightarrow> bool" where
  "values_in_unit img = list_all (list_all (list_all (\<lambda>v. 0 \<le> v \<and> v \<le> 1))) img"


section \<open>The k-fold splitter\<close>

text \<open>
  \<^verbatim>\<open>MultilabelStratifiedKFold\<close> comes from the package \<^verbatim>\<open>iterstrat\<close>, on top of
  scikit-learn's k-fold base class. Its constructor rejects \<^verbatim>\<open>n_splits <= 1\<close> with a
  ValueError ("k-fold cross-validation requires at least one train/test split by
  setting n_splits=2 or more"). How it assigns the rows of \<^verbatim>\<open>y\<close> to folds is a
  parameter of the model: a \<open>splitter\<close> maps the number of splits and the label rows
  to the test folds in fold order, each fold a list of row positions of \<^verbatim>\<open>y\<close>, or to
  the exception it raises. \<^verbatim>\<open>split\<close> yields, per fold, the positions outside the fold
  (ascending) and the fold.
\<close>

type_synonym splitter = "nat \<Rightarrow> int list list \<Rightarrow> error + nat list list"

definition MultilabelStratifiedKFold :: "int \<Rightarrow> error + nat" where
  "MultilabelStratifiedKFold n_splits_arg =
     (if n_splits_arg \<le> 1 then Inl ValueError else Inr (nat n_splits_arg))"

definition kfold_split :: "splitter \<Rightarrow> nat \<Rightarrow> int list list \<Rightarrow> error + (nat list \<times> nat list) list" where
  "kfold_split test_folds k y =
     (case test_folds k y of
        Inl e \<Rightarrow> Inl e
      | Inr folds \<Rightarrow>
          Inr (map (\<lambda>test_set. (filter (\<lambda>i. i \<notin> set test_set) [0..<length y], test_set)) folds))"

section \<open>TrainGenerator\<close>

record TrainGenerator =
  batch_size :: int
  train :: Train
  train_set :: "int list"
  n_splits :: int
  batch_sets :: "nat list list"

text \<open>
  \<^verbatim>\<open>TrainGenerator.__init__(self, train, train_set, batch_size = 32, augment = False)\<close>.
  The first statement stores the literal 32; the arguments \<^verbatim>\<open>batch_size\<close> and
  \<^verbatim>\<open>augment\<close> are not read. \<^verbatim>\<open>len(train_set)/float(32)\<close> is exact in floating point
  (a division by a power of two), so the ceiling is that of the rational quotient.
\<close>

definition TrainGenerator_init ::
    "splitter \<Rightarrow> Train \<Rightarrow> int list \<Rightarrow> int \<Rightarrow> error + TrainGenerator" where
  "TrainGenerator_init test_folds train_arg train_set_arg batch_size_arg =
     (let bs = 32;
          k = \<lceil>rat_of_nat (length train_set_arg) / rat_of_int bs\<rceil>
      in (case MultilabelStratifiedKFold k of
            Inl e \<Rightarrow> Inl e
          | Inr mskf \<Rightarrow>
              (case take_rows (df_values (labels train_arg)) train_set_arg of
                 Inl e \<Rightarrow> Inl e
               | Inr y \<Rightarrow>
                   (case kfold_split test_folds mskf y of
                      Inl e \<Rightarrow> Inl e
                    | Inr pairs \<Rightarrow>
                        Inr \<lparr>batch_size = bs, train = train_arg, train_set = train_set_arg,
                             n_splits = k, batch_sets = map snd pairs\<rparr>))))"

definition TrainGenerator_len :: "TrainGenerator \<Rightarrow> nat" where
  "TrainGenerator_len self = length (batch_sets self)"

text \<open>\<^verbatim>\<open>TrainGenerator.__getitem__\<close>: the batch set indexes \<^verbatim>\<open>train.labels.index\<close> and
  \<^verbatim>\<open>train.labels.values\<close>, the index and the rows of the whole label table.\<close>

definition TrainGenerator_getitem ::
    "image_files \<Rightarrow> TrainGenerator \<Rightarrow> int \<Rightarrow> error + image list \<times> int list list" where
  "TrainGenerator_getitem files self i =
     (case py_getitem (batch_sets self) i of
        Inl e \<Rightarrow> Inl e
      | Inr batch_set \<Rightarrow>
          (case take_rows (df_index (labels (train self))) (map int batch_set) of
             Inl e \<Rightarrow> Inl e
           | Inr batch_index \<Rightarrow>
               (case get_images files (train self) batch_index of
                  Inl e \<Rightarrow> Inl e
                | Inr x_batch \<Rightarrow>
                    (case take_rows (df_values (labels (train self))) (map int batch_set) of
                       Inl e \<Rightarrow> Inl e
                     | Inr y_batch \<Rightarrow> Inr (x_batch, y_batch)))))"

section \<open>Train.train_test_split\<close>

text \<open>
  \<^verbatim>\<open>int(1/(1-train_portion))\<close> is computed in double precision. A double is given by
  its exact rational value; the result of an operation is the double nearest to the
  exact result, a tie going to the even significand of 53 bits (\<open>round_double\<close>). The
  range of the exponent is not modelled: on a double, the difference and the quotient
  cannot overflow, and a quotient too small for a normal double truncates to 0 either
  way. \<^verbatim>\<open>int\<close> truncates towards zero, a zero divisor raises ZeroDivisionError.
\<close>

fun bit_length :: "nat \<Rightarrow> nat" where
  "bit_length n = (if n = 0 then 0 else Suc (bit_length (n div 2)))"

definition pow2 :: "int \<Rightarrow> rat" where
  "pow2 e = (if 0 \<le> e then 2 ^ nat e else 1 / 2 ^ nat (- e))"

text \<open>For \<open>x > 0\<close>, the exponent \<open>e\<close> with \<open>2 ^ e \<le> x < 2 ^ (e + 1)\<close>.\<close>

definition floor_log2 :: "rat \<Rightarrow> int" where
  "floor_log2 x =
     (let (a, b) = quotient_of x;
          e = int (bit_length (nat a)) - int (bit_length (nat b))
      in if pow2 e \<le> x then e else e - 1)"

definition round_half_even :: "rat \<Rightarrow> int" where
  "round_half_even m =
     (let f = \<lfloor>m\<rfloor>; r = m - of_int f
      in if r < 1 / 2 then f else if 1 / 2 < r then f + 1 else if even f then f else f + 1)"

definition round_double :: "rat \<Rightarrow> rat" where
  "round_double x =
     (if x = 0 then 0
      else (let e = floor_log2 \<bar>x\<bar> - 52
            in sgn x * of_int (round_half_even (\<bar>x\<bar> / pow2 e)) * pow2 e))"

definition py_int_of :: "rat \<Rightarrow> int" where
  "py_int_of x = (if 0 \<le> x then \<lfloor>x\<rfloor> else \<lceil>x\<rceil>)"

text \<open>\<^verbatim>\<open>Train.train_test_split\<close>. \<^verbatim>\<open>__next__()\<close> takes the first pair of the split
  (StopIteration if there is none).\<close>

definition train_test_split ::
    "splitter \<Rightarrow> Train \<Rightarrow> rat \<Rightarrow> int \<Rightarrow> error + TrainGenerator \<times> TrainGenerator" where
  "train_test_split test_folds self train_portion batch_size_arg =
     (if round_double (1 - train_portion) = 0 then Inl ZeroDivisionError
      else
        (case MultilabelStratifiedKFold
                (py_int_of (round_double (1 / round_double (1 - train_portion)))) of
           Inl e \<Rightarrow> Inl e
         | Inr mskf \<Rightarrow>
             (case kfold_split test_folds mskf (df_values (labels self)) of
                Inl e \<Rightarrow> Inl e
              | Inr [] \<Rightarrow> Inl StopIteration
              | Inr ((fold_train, fold_val) # _) \<Rightarrow>
                  (case TrainGenerator_init test_folds self (map int fold_train) batch_size_arg of
                     Inl e \<Rightarrow> Inl e
                   | Inr train_generator \<Rightarrow>
                       (case TrainGenerator_init test_folds self (map int fold_train) batch_size_arg of
                          Inl e \<Rightarrow> Inl e
                        | Inr val_generator \<Rightarrow> Inr (train_generator, val_generator))))))"

section \<open>TestGenerator\<close>

record TestGenerator =
  test :: ProteinAtlas
  test_batch_size :: int
  test_batch_sets :: "nat list list"

text \<open>\<^verbatim>\<open>TestGenerator.__len__\<close>: \<^verbatim>\<open>int(np.ceil(len(self.test.index) / float(self.batch_size)))\<close>;
  a batch size of 0 raises ZeroDivisionError. The quotient is taken exactly.\<close>

definition TestGenerator_len :: "ProteinAtlas \<Rightarrow> int \<Rightarrow> error + int" where
  "TestGenerator_len test_arg bs =
     (if bs = 0 then Inl ZeroDivisionError
      else Inr \<lceil>rat_of_nat (length (index test_arg)) / rat_of_int bs\<rceil>)"

text \<open>
  \<^verbatim>\<open>np.array_split(ary, Nsections)\<close>: ValueError unless \<^verbatim>\<open>Nsections > 0\<close>; the first
  \<^verbatim>\<open>Ntotal % Nsections\<close> sections have one element more than \<^verbatim>\<open>Ntotal // Nsections\<close>;
  the sections are the slices between the running sums of the section sizes.
\<close>

fun cumsum :: "nat \<Rightarrow> nat list \<Rightarrow> nat list" where
  "cumsum acc [] = []"
| "cumsum acc (x # xs) = (acc + x) # cumsum (acc + x) xs"

definition array_split :: "'a list \<Rightarrow> int \<Rightarrow> error + 'a list list" where
  "array_split ary Nsections =
     (if Nsections \<le> 0 then Inl ValueError
      else
        (let k = nat Nsections;
             Neach_section = length ary div k;
             extras = length ary mod k;
             section_sizes = [0] @ replicate extras (Neach_section + 1)
                                 @ replicate (k - extras) Neach_section;
             div_points = cumsum 0 section_sizes
         in Inr (map (\<lambda>i. take (div_points ! (i + 1) - div_points ! i) (drop (div_points ! i) ary))
                     [0..<k])))"

definition TestGenerator_init :: "ProteinAtlas \<Rightarrow> int \<Rightarrow> error + TestGenerator" where
  "TestGenerator_init test_arg batch_size_arg =
     (case TestGenerator_len test_arg batch_size_arg of
        Inl e \<Rightarrow> Inl e
      | Inr n \<Rightarrow>
          (case array_split [0..<length (index test_arg)] n of
             Inl e \<Rightarrow> Inl e
           | Inr sets \<Rightarrow>
               Inr \<lparr>test = test_arg, test_batch_size = batch_size_arg, test_batch_sets = sets\<rparr>))"

definition TestGenerator_getitem :: "image_files \<Rightarrow> TestGenerator \<Rightarrow> int \<Rightarrow> error + image list" where
  "TestGenerator_getitem files self i =
     (case py_getitem (test_batch_sets self) i of
        Inl e \<Rightarrow> Inl e
      | Inr batch_set \<Rightarrow>
          (case take_rows (index (test self)) (map int batch_set) of
             Inl e \<Rightarrow> Inl e
           | Inr batch_index \<Rightarrow> get_images files (test self) batch_index))"


section \<open>Inputs for the concrete evaluations\<close>

text \<open>
  A stand-in for the splitter: folds of consecutive positions, sized as scikit-learn's
  plain k-fold sizes them, and its ValueError when there are more splits than samples.
  Like every k-fold splitter it returns positions in \<^verbatim>\<open>range(len(y))\<close>.
\<close>

definition contiguous_folds :: splitter where
  "contiguous_folds k y =
     (if length y < k then Inl ValueError else array_split [0..<length y] (int k))"

text \<open>A label table of \<open>n\<close> samples, all located in the nucleoplasm, with ids
  \<^verbatim>\<open>aa\<close>, \<^verbatim>\<open>ab\<close>, \<^verbatim>\<open>ac\<close>, ...\<close>

definition sample_ids :: "nat \<Rightarrow> string list" where
  "sample_ids n = map (\<lambda>i. [char_of (97 + i div 26), char_of (97 + i mod 26)]) [0..<n]"

definition demo_train :: "nat \<Rightarrow> Train" where
  "demo_train n =
     \<lparr>img_path = ''train'', index = sample_ids n, mlb = map int [0..<28],
      labels = \<lparr>df_index = sample_ids n, df_columns = classes,
                df_values = replicate n (1 # replicate 27 0)\<rparr>\<rparr>"

definition demo_test :: "nat \<Rightarrow> ProteinAtlas" where
  "demo_test n = \<lparr>img_path = ''test'', index = sample_ids n\<rparr>"

text \<open>An image directory in which every path holds a black 512 by 512 image, and an
  empty one.\<close>

definition black_files :: image_files where
  "black_files = (\<lambda>p. Some (replicate 512 (replicate 512 0)))"

definition no_files :: image_files where
  "no_files = (\<lambda>p. None)"

text \<open>A label file with one sample per class, then a sample with the target
  \<^verbatim>\<open>0 5 27\<close>; and a label file with that sample alone.\<close>

definition demo_csv :: "(string \<times> cell) list" where
  "demo_csv =
     [(''s0'', CellStr ''0''), (''s1'', CellStr ''1''), (''s2'', CellStr ''2''),
      (''s3'', CellStr ''3''), (''s4'', CellStr ''4''), (''s5'', CellStr ''5''),
      (''s6'', CellStr ''6''), (''s7'', CellStr ''7''), (''s8'', CellStr ''8''),
      (''s9'', CellStr ''9''), (''s10'', CellStr ''10''), (''s11'', CellStr ''11''),
      (''s12'', CellStr ''12''), (''s13'', CellStr ''13''), (''s14'', CellStr ''14''),
      (''s15'', CellStr ''15''), (''s16'', CellStr ''16''), (''s17'', CellStr ''17''),
      (''s18'', CellStr ''18''), (''s19'', CellStr ''19''), (''s20'', CellStr ''20''),
      (''s21'', CellStr ''21''), (''s22'', CellStr ''22''), (''s23'', CellStr ''23''),
      (''s24'', CellStr ''24''), (''s25'', CellStr ''25''), (''s26'', CellStr ''26''),
      (''s27'', CellStr ''27''), (''s28'', CellStr ''0 5 27'')]"

definition single_csv :: "(string \<times> cell) list" where
  "single_csv = [(''s28'', CellStr ''0 5 27'')]"

section \<open>Predicates of the claims\<close>

text \<open>A valid sample id: each of its four channel files exists and holds 512 rows of
  512 pixels.\<close>

definition valid_sample :: "image_files \<Rightarrow> 'a ProteinAtlas_scheme \<Rightarrow> string \<Rightarrow> bool" where
  "valid_sample files self sample_id =
     list_all
       (\<lambda>color.
          (case files (Path (img_path self) (sample_id @ ''_'' @ color @ ''.png'')) of
             None \<Rightarrow> False
           | Some b \<Rightarrow> length b = nrows \<and> list_all (\<lambda>row. length row = ncols) b))
       channel_colors"







text \<open>A label file within the interface: every target parses, and to class numbers
  from 0 to 27 only.\<close>

definition labels_in_vocabulary :: "(string \<times> cell) list \<Rightarrow> bool" where
  "labels_in_vocabulary csv =
     list_all
       (\<lambda>row. (case read_target (snd row) of
                 Inl e \<Rightarrow> False
               | Inr t \<Rightarrow> list_all (\<lambda>c. 0 \<le> c \<and> c < 28) t))
       csv"

text \<open>Reading a 0/1 row back: the positions that hold 1, and the fitted classes at
  these positions (the binarizer's \<^verbatim>\<open>inverse_transform\<close>).\<close>

definition positive_positions :: "int list \<Rightarrow> nat list" where
  "positive_positions row = filter (\<lambda>j. row ! j = 1) [0..<length row]"

definition mlb_inverse :: "int list \<Rightarrow> int list \<Rightarrow> int list" where
  "mlb_inverse cls row = map (\<lambda>j. cls ! j) (positive_positions row)"

section \<open>Facts about the embedding\<close>

lemma kfold_ctor_simps:
  "MultilabelStratifiedKFold k = Inl e \<longleftrightarrow> k \<le> 1 \<and> e = ValueError"
  "MultilabelStratifiedKFold k = Inr m \<longleftrightarrow> 1 < k \<and> m = nat k"
  by (auto simp: MultilabelStratifiedKFold_def)

lemma ceiling_div_32_le_1: "\<lceil>rat_of_nat n / 32\<rceil> \<le> 1 \<longleftrightarrow> n \<le> 32"
  by (simp add: ceiling_le_iff pos_divide_le_eq)

lemma ceiling_div_32_eq_2: "\<lceil>rat_of_nat n / 32\<rceil> = 2 \<longleftrightarrow> 32 < n \<and> n \<le> 64"
proof -
  have "\<lceil>rat_of_nat n / 32\<rceil> = 2 \<longleftrightarrow> 1 < rat_of_nat n / 32 \<and> rat_of_nat n / 32 \<le> 2"
    by (simp add: ceiling_eq_iff)
  also have "\<dots> \<longleftrightarrow> 32 < rat_of_nat n \<and> rat_of_nat n \<le> 64"
    by (simp add: pos_less_divide_eq pos_divide_le_eq)
  also have "\<dots> \<longleftrightarrow> 32 < n \<and> n \<le> 64"
    by (metis of_nat_le_iff of_nat_less_iff of_nat_numeral)
  finally show ?thesis .
qed

lemma TrainGenerator_init_Inr:
  assumes "TrainGenerator_init f tr ts B = Inr g"
  shows "batch_size g = 32" and "train g = tr" and "train_set g = ts"
    and "n_splits g = \<lceil>rat_of_nat (length ts) / 32\<rceil>" and "1 < n_splits g"
    and "\<exists>y. take_rows (df_values (labels tr)) ts = Inr y
             \<and> f (nat (n_splits g)) y = Inr (batch_sets g)"
  using assms
  by (auto simp: TrainGenerator_init_def Let_def kfold_split_def kfold_ctor_simps o_def
      split: sum.splits)

lemma TrainGenerator_init_small:
  assumes "length ts \<le> 32"
  shows "TrainGenerator_init f tr ts B = Inl ValueError"
  using assms
  by (simp add: TrainGenerator_init_def Let_def MultilabelStratifiedKFold_def ceiling_div_32_le_1)

lemma TrainGenerator_init_batch_size:
  "TrainGenerator_init f tr ts B = TrainGenerator_init f tr ts B'"
  by (simp add: TrainGenerator_init_def)

lemma demo40_ok:
  "\<not> isl (TrainGenerator_init contiguous_folds (demo_train 40) (map int [0..<40]) 32)"
  by code_simp

section \<open>C1: the number of splits\<close>

text \<open>
  C1 as stated (the number of splits is the ceiling of \<open>n / B\<close> with a minimum of 2, so
  that a small subset gives two batches and no error) fails: with 10 samples and
  \<open>B = 32\<close> the constructor computes one split, hands it to the k-fold constructor and
  ends in its ValueError, where the claim promises 2 splits.
\<close>

theorem n_splits_floor_counterexample:
  "TrainGenerator_init contiguous_folds (demo_train 10) (map int [0..<10]) 32 = Inl ValueError
   \<and> max 2 \<lceil>rat_of_nat (length (map int [0..<10])) / rat_of_int 32\<rceil> = 2"
  by code_simp

text \<open>
  C1, amended: for a training index subset of size \<open>n\<close> and the target batch size
  \<open>B = 32\<close>, the number of splits is the ceiling of \<open>n / B\<close> with no minimum. For
  \<open>n \<le> 32\<close> the construction ends in the ValueError of the k-fold constructor; when it
  succeeds, the number of splits is 2 exactly for \<open>32 < n \<le> 64\<close>, and the batches are
  the folds the splitter returns for that number of splits.
\<close>

theorem n_splits_ceiling_no_floor:
  assumes "B = 32"
  shows "(length ts \<le> 32 \<longrightarrow> TrainGenerator_init f tr ts B = Inl ValueError) \<and>
         (\<forall>g. TrainGenerator_init f tr ts B = Inr g \<longrightarrow>
            n_splits g = \<lceil>rat_of_nat (length ts) / rat_of_int B\<rceil> \<and>
            (n_splits g = 2 \<longleftrightarrow> 32 < length ts \<and> length ts \<le> 2 * 32) \<and>
            (\<exists>y. f (nat (n_splits g)) y = Inr (batch_sets g)))"
proof (intro conjI impI allI)
  assume "length ts \<le> 32"
  then show "TrainGenerator_init f tr ts B = Inl ValueError"
    by (rule TrainGenerator_init_small)
next
  fix g assume g: "TrainGenerator_init f tr ts B = Inr g"
  show "n_splits g = \<lceil>rat_of_nat (length ts) / rat_of_int B\<rceil>"
    using TrainGenerator_init_Inr(4) [OF g] assms by simp
  show "n_splits g = 2 \<longleftrightarrow> 32 < length ts \<and> length ts \<le> 2 * 32"
    using TrainGenerator_init_Inr(4) [OF g] by (simp add: ceiling_div_32_eq_2)
  show "\<exists>y. f (nat (n_splits g)) y = Inr (batch_sets g)"
    using TrainGenerator_init_Inr(6) [OF g] by blast
qed

theorem n_splits_ceiling_no_floor_witness:
  "(32::int) = 32
   \<and> TrainGenerator_init contiguous_folds (demo_train 10) (map int [0..<10]) 32 = Inl ValueError
   \<and> \<not> isl (TrainGenerator_init contiguous_folds (demo_train 40) (map int [0..<40]) 32)
   \<and> n_splits (projr (TrainGenerator_init contiguous_folds (demo_train 40) (map int [0..<40]) 32)) = 2"
proof -
  have B: "(32::int) = 32" by simp
  have small: "length (map int [0..<10]) \<le> 32" by simp
  have ok: "\<not> isl (TrainGenerator_init contiguous_folds (demo_train 40) (map int [0..<40]) 32)"
    by (rule demo40_ok)
  then obtain g where
    g: "TrainGenerator_init contiguous_folds (demo_train 40) (map int [0..<40]) 32 = Inr g"
    by (cases "TrainGenerator_init contiguous_folds (demo_train 40) (map int [0..<40]) 32") auto
  have "n_splits g = 2"
    using n_splits_ceiling_no_floor [OF B, of "map int [0..<40]" contiguous_folds "demo_train 40"] g
    by simp
  moreover have
    "TrainGenerator_init contiguous_folds (demo_train 10) (map int [0..<10]) 32 = Inl ValueError"
    using n_splits_ceiling_no_floor [OF B, of "map int [0..<10]" contiguous_folds "demo_train 10"]
      small
    by blast
  ultimately show ?thesis using ok g by simp
qed

section \<open>C2: the batch size argument\<close>

text \<open>
  C2: whatever \<^verbatim>\<open>batch_size\<close> is passed to the constructor of \<^verbatim>\<open>TrainGenerator\<close>, the
  batch size it stores and divides by is 32; the argument, also the one forwarded by
  \<^verbatim>\<open>Train.train_test_split\<close>, has no effect on the result.
\<close>

theorem batch_size_argument_ignored:
  "TrainGenerator_init f tr ts B = TrainGenerator_init f tr ts B'
   \<and> train_test_split f tr p B = train_test_split f tr p B'
   \<and> (\<forall>g. TrainGenerator_init f tr ts B = Inr g \<longrightarrow>
          batch_size g = 32 \<and> n_splits g = \<lceil>rat_of_nat (length ts) / 32\<rceil>)"
proof (intro conjI allI impI)
  show "TrainGenerator_init f tr ts B = TrainGenerator_init f tr ts B'"
    by (rule TrainGenerator_init_batch_size)
  show "train_test_split f tr p B = train_test_split f tr p B'"
    unfolding train_test_split_def
    by (simp only: TrainGenerator_init_batch_size [of f tr _ B B'])
next
  fix g assume g: "TrainGenerator_init f tr ts B = Inr g"
  show "batch_size g = 32"
    by (rule TrainGenerator_init_Inr(1) [OF g])
  show "n_splits g = \<lceil>rat_of_nat (length ts) / 32\<rceil>"
    by (rule TrainGenerator_init_Inr(4) [OF g])
qed

theorem batch_size_argument_ignored_witness:
  "TrainGenerator_init contiguous_folds (demo_train 40) (map int [0..<40]) 8
     = TrainGenerator_init contiguous_folds (demo_train 40) (map int [0..<40]) 32
   \<and> \<not> isl (TrainGenerator_init contiguous_folds (demo_train 40) (map int [0..<40]) 8)
   \<and> batch_size (projr (TrainGenerator_init contiguous_folds (demo_train 40) (map int [0..<40]) 8)) = 32
   \<and> n_splits (projr (TrainGenerator_init contiguous_folds (demo_train 40) (map int [0..<40]) 8)) = 2"
proof -
  note t = batch_size_argument_ignored [of contiguous_folds "demo_train 40" "map int [0..<40]" 8 32 "1/2"]
  have eq: "TrainGenerator_init contiguous_folds (demo_train 40) (map int [0..<40]) 8
     = TrainGenerator_init contiguous_folds (demo_train 40) (map int [0..<40]) 32"
    using t by blast
  have ok: "\<not> isl (TrainGenerator_init contiguous_folds (demo_train 40) (map int [0..<40]) 8)"
    unfolding eq by (rule demo40_ok)
  then obtain g where
    g: "TrainGenerator_init contiguous_folds (demo_train 40) (map int [0..<40]) 8 = Inr g"
    by (cases "TrainGenerator_init contiguous_folds (demo_train 40) (map int [0..<40]) 8") auto
  have "batch_size g = 32 \<and> n_splits g = \<lceil>rat_of_nat (length (map int [0..<40])) / 32\<rceil>"
    using t g by blast
  moreover have "\<lceil>rat_of_nat (length (map int [0..<40])) / 32\<rceil> = (2::int)"
    unfolding ceiling_div_32_eq_2 by simp
  ultimately have "batch_size g = 32 \<and> n_splits g = 2" by simp
  moreover have
    "TrainGenerator_init contiguous_folds (demo_train 40) (map int [0..<40]) 32 = Inr g"
    using g eq by simp
  ultimately show ?thesis by (simp add: eq)
qed

section \<open>C3: the batches and the training subset\<close>

lemma sequence_res_Inr_length:
  "sequence_res rs = Inr vs \<Longrightarrow> length vs = length rs"
  by (induction rs arbitrary: vs) (auto split: sum.splits)

lemma take_rows_length: "take_rows xs idx = Inr ys \<Longrightarrow> length ys = length idx"
  by (auto simp: take_rows_def dest: sequence_res_Inr_length)

text \<open>
  The splitter sees \<^verbatim>\<open>y\<close>, the label rows of the subset, so every fold it returns
  holds positions below \<^verbatim>\<open>len(train_set)\<close>. The constructor stores the folds as they
  are: no position is mapped back through \<^verbatim>\<open>train_set\<close>.
\<close>

lemma batch_positions_below_subset_size:
  assumes init: "TrainGenerator_init f tr ts B = Inr g"
    and folds: "\<And>k y fs t i. f k y = Inr fs \<Longrightarrow> t \<in> set fs \<Longrightarrow> i \<in> set t \<Longrightarrow> i < length y"
    and b: "b \<in> set (batch_sets g)" and i: "i \<in> set b"
  shows "i < length ts"
proof -
  obtain y where y: "take_rows (df_values (labels tr)) ts = Inr y"
    and fy: "f (nat (n_splits g)) y = Inr (batch_sets g)"
    using TrainGenerator_init_Inr(6) [OF init] by blast
  have "i < length y" using folds [OF fy b i] .
  then show ?thesis using take_rows_length [OF y] by simp
qed

text \<open>
  C3 (the batches are a partition of the training index subset) against the code, at a
  table of 34 samples and the subset \<open>1, \<dots>, 33\<close>: the two batches hold the positions
  \<open>0, \<dots>, 32\<close>. Sample 33 of the subset is in no batch, and sample 0, which is not in
  the subset, is in the first batch; \<^verbatim>\<open>__getitem__\<close> reads the batch as positions of
  the whole table and serves the first 17 samples of the table as batch 0.
\<close>

theorem batches_are_positions_not_train_set:
  "map_sum id batch_sets
     (TrainGenerator_init contiguous_folds (demo_train 34) (map int [1..<34]) 32)
     = Inr [[0..<17], [17..<33]]
   \<and> 33 \<in> set [1..<34::nat] \<and> 33 \<notin> set (concat [[0..<17], [17..<33::nat]])
   \<and> 0 \<in> set (concat [[0..<17], [17..<33::nat]]) \<and> 0 \<notin> set [1..<34::nat]
   \<and> take_rows (df_index (labels (demo_train 34))) (map int [0..<17]) = Inr (sample_ids 17)"
  by code_simp

section \<open>C4: train and validation generator\<close>

lemma train_test_split_Inr:
  assumes "train_test_split f tr p B = Inr (tg, vg)"
  shows "\<exists>k fold_train fold_val rest.
           kfold_split f k (df_values (labels tr)) = Inr ((fold_train, fold_val) # rest)
           \<and> TrainGenerator_init f tr (map int fold_train) B = Inr tg
           \<and> TrainGenerator_init f tr (map int fold_train) B = Inr vg"
  using assms
  by (auto simp: train_test_split_def split: if_splits sum.splits list.splits prod.splits)

lemma kfold_split_train_part:
  assumes "kfold_split f k y = Inr ((a, b) # rest)"
  shows "a = filter (\<lambda>i. i \<notin> set b) [0..<length y]"
  using assms by (auto simp: kfold_split_def split: sum.splits)

lemma demo68_ok: "\<not> isl (train_test_split contiguous_folds (demo_train 68) (1/2) 32)"
  by code_simp

lemma demo68_val:
  "train_set (snd (projr (train_test_split contiguous_folds (demo_train 68) (1/2) 32)))
     = map int [34..<68]"
  by code_simp

text \<open>
  C4: whatever the train portion and the batch size, when \<^verbatim>\<open>train_test_split\<close> returns,
  the validation generator is built on the same \<^verbatim>\<open>train_set\<close> array (and the same
  Train object) as the train generator: the training part of the first fold, which has
  no position in common with the held-out part of that fold.
\<close>

theorem validation_generator_on_train_set:
  assumes "train_test_split f tr p B = Inr (tg, vg)"
  shows "train_set vg = train_set tg \<and> train vg = train tg \<and>
         (\<exists>k fold_train fold_val rest.
            kfold_split f k (df_values (labels tr)) = Inr ((fold_train, fold_val) # rest)
            \<and> train_set vg = map int fold_train
            \<and> set fold_train \<inter> set fold_val = {})"
proof -
  obtain k a b rest where s: "kfold_split f k (df_values (labels tr)) = Inr ((a, b) # rest)"
    and t: "TrainGenerator_init f tr (map int a) B = Inr tg"
    and v: "TrainGenerator_init f tr (map int a) B = Inr vg"
    using train_test_split_Inr [OF assms] by blast
  have "set a \<inter> set b = {}" using kfold_split_train_part [OF s] by auto
  then show ?thesis
    using s TrainGenerator_init_Inr(2,3) [OF t] TrainGenerator_init_Inr(2,3) [OF v] by auto
qed

theorem validation_generator_on_train_set_witness:
  "\<not> isl (train_test_split contiguous_folds (demo_train 68) (1/2) 32)
   \<and> train_set (snd (projr (train_test_split contiguous_folds (demo_train 68) (1/2) 32)))
     = train_set (fst (projr (train_test_split contiguous_folds (demo_train 68) (1/2) 32)))
   \<and> train_set (snd (projr (train_test_split contiguous_folds (demo_train 68) (1/2) 32)))
     = map int [34..<68]"
proof -
  obtain tg vg where
    r: "train_test_split contiguous_folds (demo_train 68) (1/2) 32 = Inr (tg, vg)"
    using demo68_ok by (cases "train_test_split contiguous_folds (demo_train 68) (1/2) 32") auto
  have "train_set vg = train_set tg"
    using validation_generator_on_train_set [OF r] by blast
  then show ?thesis using demo68_ok demo68_val by (simp add: r)
qed

section \<open>C5: selectors of other types\<close>






section \<open>C10: selecting the nucleoplasm samples\<close>

lemma nucleoplasm_column:
  "filter (\<lambda>j. classes ! j = ''Nucleoplasm'') [0..<length classes] = [0]"
  by code_simp

lemma length_classes: "length classes = 28"
  by (simp add: classes_def)

lemma zip_mask_values:
  "map fst (filter snd (zip vs (map P vs))) = filter P vs"
  by (induction vs) auto

lemma zip_mask_index:
  "map fst (filter snd (zip ids (map P vs))) = map fst (filter (\<lambda>(i, v). P v) (zip ids vs))"
proof (induction ids arbitrary: vs)
  case Nil
  then show ?case by simp
next
  case (Cons i ids)
  then show ?case by (cases vs) auto
qed

text \<open>
  C10: on a label table whose columns are the 28 class names, \<^verbatim>\<open>any([0])\<close> returns
  exactly the rows (with their ids) whose column 0 holds 1, and
  \<^verbatim>\<open>any("Nucleoplasm")\<close> returns the same table.
\<close>

theorem any_nucleoplasm_by_position_and_name:
  assumes "df_columns (labels tr) = classes"
  shows "any tr (PyList [PyInt 0]) =
           Inr \<lparr>df_index = map fst (filter (\<lambda>(i, row). row ! 0 = 1)
                                       (zip (df_index (labels tr)) (df_values (labels tr)))),
                df_columns = classes,
                df_values = filter (\<lambda>row. row ! 0 = 1) (df_values (labels tr))\<rparr>
         \<and> any tr (PyStr ''Nucleoplasm'') = any tr (PyList [PyInt 0])"
proof -
  have l: "any_mask (labels tr) (PyList [PyInt 0])
             = Inr (map (\<lambda>row. row ! 0 = 1) (df_values (labels tr)))"
    using assms
    by (simp add: iloc_columns_def iloc_column_def length_classes any_axis1_def)
  have s: "any_mask (labels tr) (PyStr ''Nucleoplasm'')
             = Inr (map (\<lambda>row. row ! 0 = 1) (df_values (labels tr)))"
    using assms nucleoplasm_column by (simp add: loc_columns_def any_axis1_def)
  show ?thesis
    using assms
    by (simp add: any_def l s loc_rows_def zip_mask_values zip_mask_index del: any_mask.simps)
qed

theorem any_nucleoplasm_by_position_and_name_witness:
  "df_columns (labels (demo_train 3)) = classes
   \<and> any (demo_train 3) (PyStr ''Nucleoplasm'') = any (demo_train 3) (PyList [PyInt 0])
   \<and> any (demo_train 3) (PyList [PyInt 0]) = Inr (labels (demo_train 3))"
proof -
  have c: "df_columns (labels (demo_train 3)) = classes" by (simp add: demo_train_def)
  have "any (demo_train 3) (PyList [PyInt 0]) = Inr (labels (demo_train 3))" by code_simp
  then show ?thesis using any_nucleoplasm_by_position_and_name [OF c] c by simp
qed

section \<open>C9: empty and malformed targets\<close>

lemma sequence_res_Inr_nth:
  "sequence_res rs = Inr vs \<Longrightarrow> i < length rs \<Longrightarrow> rs ! i = Inr (vs ! i)"
proof (induction rs arbitrary: vs i)
  case Nil
  then show ?case by simp
next
  case (Cons r rs)
  then show ?case by (cases i) (auto split: sum.splits)
qed









section \<open>C7: binarizing a target\<close>

lemma read_0_5_27: "read_target (CellStr ''0 5 27'') = Inr [0, 5, 27]"
  by code_simp

lemma sorted_distinct_full_range:
  fixes xs :: "int list"
  assumes "sorted xs" and "distinct xs" and "set xs \<subseteq> {0..<28}" and "length xs = 28"
  shows "xs = map int [0..<28]"
proof -
  have "card (set xs) = 28" using assms(2,4) by (simp add: distinct_card)
  moreover have "card {0..<28::int} = 28" by simp
  ultimately have s: "set xs = {0..<28}"
    using assms(3) by (intro card_subset_eq) simp_all
  have "set (map int [0..<28]) = {0..<28::int}"
    by (simp only: set_map set_upt image_int_atLeastLessThan) simp
  moreover have "sorted (map int [0..<28])" "distinct (map int [0..<28])"
    by (simp_all add: sorted_map distinct_map inj_on_def del: upt_rec_numeral)
  ultimately show ?thesis
    using assms(1,2) s by (intro sorted_distinct_set_unique) simp_all
qed

lemma labels_in_vocabulary_targets:
  assumes "labels_in_vocabulary csv"
    and "sequence_res (map (\<lambda>row. read_target (snd row)) csv) = Inr targets"
  shows "set (concat targets) \<subseteq> {0..<28}"
proof
  fix c assume "c \<in> set (concat targets)"
  then obtain t where t: "t \<in> set targets" "c \<in> set t" by auto
  then obtain i where i: "i < length targets" "targets ! i = t"
    by (auto simp: in_set_conv_nth)
  have len: "length targets = length csv"
    using sequence_res_Inr_length [OF assms(2)] by simp
  have "read_target (snd (csv ! i)) = Inr t"
    using sequence_res_Inr_nth [OF assms(2), of i] i len by simp
  moreover have "csv ! i \<in> set csv" using i len by simp
  ultimately have "list_all (\<lambda>c. 0 \<le> c \<and> c < 28) t"
    using assms(1) by (auto simp: labels_in_vocabulary_def list_all_iff split: sum.splits)
  then show "c \<in> {0..<28}" using t(2) by (auto simp: list_all_iff)
qed

lemma Train_init_Inr:
  assumes "Train_init p csv = Inr tr"
  shows "\<exists>targets. sequence_res (map (\<lambda>row. read_target (snd row)) csv) = Inr targets
           \<and> length (mlb_fit targets) = 28
           \<and> mlb tr = mlb_fit targets
           \<and> labels tr = \<lparr>df_index = map fst csv, df_columns = classes,
                           df_values = mlb_transform (mlb_fit targets) targets\<rparr>"
  using assms
  by (auto simp: Train_init_def Let_def DataFrame_def classes_def split: sum.splits if_splits)

lemma row_0_5_27:
  "map (\<lambda>c. if c \<in> set [0, 5, 27] then 1 else 0) (map int [0..<28])
     = [1, 0, 0, 0, 0, 1, 0, 0, 0, 0, 0, 0, 0, 0, 0, 0, 0, 0, 0, 0, 0, 0, 0, 0, 0, 0, 0, 1::int]"
  by code_simp

lemma decode_0_5_27:
  "positive_positions
     [1, 0, 0, 0, 0, 1, 0, 0, 0, 0, 0, 0, 0, 0, 0, 0, 0, 0, 0, 0, 0, 0, 0, 0, 0, 0, 0, 1] = [0, 5, 27]
   \<and> mlb_inverse (map int [0..<28])
     [1, 0, 0, 0, 0, 1, 0, 0, 0, 0, 0, 0, 0, 0, 0, 0, 0, 0, 0, 0, 0, 0, 0, 0, 0, 0, 0, 1] = [0, 5, 27]
   \<and> map (\<lambda>j. classes ! j) [0, 5, 27] = [''Nucleoplasm'', ''Nuclear bodies'', ''Rods & rings'']"
  by code_simp

text \<open>
  C7 as stated (binarizing \<^verbatim>\<open>0 5 27\<close> yields a 28-wide row, in the column order of
  the 28-class vocabulary) fails: the binarizer is constructed without classes and
  fits the labels that occur in the file. On a file with that one sample the row is
  \<open>[1, 1, 1]\<close>, three columns wide, and the DataFrame with the 28 column names cannot
  be built: construction ends in ValueError.
\<close>

theorem binarize_fitted_classes_counterexample:
  "read_target (CellStr ''0 5 27'') = Inr [0, 5, 27]
   \<and> mlb_transform (mlb_fit [[0, 5, 27]]) [[0, 5, 27]] = [[1, 1, 1]]
   \<and> Train_init ''train'' single_csv = Inl ValueError"
  by code_simp

text \<open>
  C7, amended: when every target of the label file holds class numbers from 0 to 27 and
  \<^verbatim>\<open>Train.__init__\<close> succeeds (so all 28 classes occur in the file), the fitted classes
  are 0, ..., 27 in this order, the columns are named by the 28-class vocabulary, the
  row of a sample with target \<^verbatim>\<open>0 5 27\<close> is 28 wide with 1 exactly at the positions
  0, 5 and 27, and reading the positive positions back through the fitted classes
  gives 0, 5, 27 again.
\<close>

theorem binarize_0_5_27_roundtrip:
  assumes init: "Train_init p csv = Inr tr"
    and voc: "labels_in_vocabulary csv"
    and i: "i < length csv" and s: "snd (csv ! i) = CellStr ''0 5 27''"
  shows "mlb tr = map int [0..<28] \<and> df_columns (labels tr) = classes
         \<and> df_values (labels tr) ! i
             = [1, 0, 0, 0, 0, 1, 0, 0, 0, 0, 0, 0, 0, 0, 0, 0, 0, 0, 0, 0, 0, 0, 0, 0, 0, 0, 0, 1]
         \<and> positive_positions (df_values (labels tr) ! i) = [0, 5, 27]
         \<and> mlb_inverse (mlb tr) (df_values (labels tr) ! i) = [0, 5, 27]"
proof -
  obtain targets where t: "sequence_res (map (\<lambda>row. read_target (snd row)) csv) = Inr targets"
    and len: "length (mlb_fit targets) = 28"
    and m: "mlb tr = mlb_fit targets"
    and l: "labels tr = \<lparr>df_index = map fst csv, df_columns = classes,
                          df_values = mlb_transform (mlb_fit targets) targets\<rparr>"
    using Train_init_Inr [OF init] by blast
  have sub: "set (mlb_fit targets) \<subseteq> {0..<28}"
    using labels_in_vocabulary_targets [OF voc t] by (simp add: mlb_fit_def)
  have fit: "mlb_fit targets = map int [0..<28]"
    using sub len by (intro sorted_distinct_full_range) (simp_all add: mlb_fit_def)
  have tl: "length targets = length csv"
    using sequence_res_Inr_length [OF t] by simp
  have "Inr (targets ! i) = read_target (snd (csv ! i))"
    using sequence_res_Inr_nth [OF t, of i] i by simp
  then have ti: "targets ! i = [0, 5, 27]"
    using s read_0_5_27 by simp
  have row: "df_values (labels tr) ! i
      = [1, 0, 0, 0, 0, 1, 0, 0, 0, 0, 0, 0, 0, 0, 0, 0, 0, 0, 0, 0, 0, 0, 0, 0, 0, 0, 0, 1]"
    using i tl by (simp only: l dataframe.simps mlb_transform_def fit nth_map ti row_0_5_27)
  show ?thesis
  proof (intro conjI)
    show "mlb tr = map int [0..<28]" using m fit by simp
    show "df_columns (labels tr) = classes" by (simp add: l)
    show "df_values (labels tr) ! i
      = [1, 0, 0, 0, 0, 1, 0, 0, 0, 0, 0, 0, 0, 0, 0, 0, 0, 0, 0, 0, 0, 0, 0, 0, 0, 0, 0, 1]"
      by (rule row)
    show "positive_positions (df_values (labels tr) ! i) = [0, 5, 27]"
      unfolding row using decode_0_5_27 by blast
    show "mlb_inverse (mlb tr) (df_values (labels tr) ! i) = [0, 5, 27]"
      unfolding row m fit using decode_0_5_27 by blast
  qed
qed

lemma demo_csv_ok: "\<not> isl (Train_init ''train'' demo_csv) \<and> labels_in_vocabulary demo_csv"
  by code_simp

theorem binarize_0_5_27_roundtrip_witness:
  "\<not> isl (Train_init ''train'' demo_csv) \<and> labels_in_vocabulary demo_csv
   \<and> 28 < length demo_csv \<and> snd (demo_csv ! 28) = CellStr ''0 5 27''
   \<and> df_values (labels (projr (Train_init ''train'' demo_csv))) ! 28
       = [1, 0, 0, 0, 0, 1, 0, 0, 0, 0, 0, 0, 0, 0, 0, 0, 0, 0, 0, 0, 0, 0, 0, 0, 0, 0, 0, 1]
   \<and> mlb_inverse (mlb (projr (Train_init ''train'' demo_csv)))
       (df_values (labels (projr (Train_init ''train'' demo_csv))) ! 28) = [0, 5, 27]"
proof -
  obtain tr where tr: "Train_init ''train'' demo_csv = Inr tr"
    using demo_csv_ok by (cases "Train_init ''train'' demo_csv") auto
  have i: "28 < length demo_csv" by (simp add: demo_csv_def)
  have s: "snd (demo_csv ! 28) = CellStr ''0 5 27''" by (simp add: demo_csv_def)
  have v: "labels_in_vocabulary demo_csv" using demo_csv_ok by simp
  note t = binarize_0_5_27_roundtrip [OF tr v i s]
  have a: "df_values (labels tr) ! 28
      = [1, 0, 0, 0, 0, 1, 0, 0, 0, 0, 0, 0, 0, 0, 0, 0, 0, 0, 0, 0, 0, 0, 0, 0, 0, 0, 0, 1]"
    using t by blast
  have b: "mlb_inverse (mlb tr) (df_values (labels tr) ! 28) = [0, 5, 27]"
    using t by blast
  have p: "projr (Train_init ''train'' demo_csv) = tr" by (simp add: tr)
  show ?thesis unfolding p using a b demo_csv_ok i s by blast
qed

section \<open>C8: image tensors\<close>

lemma sequence_res_map_Inr:
  "(\<And>x. x \<in> set xs \<Longrightarrow> f x = Inr (g x)) \<Longrightarrow> sequence_res (map f xs) = Inr (map g xs)"
  by (induction xs) auto

lemma get_path_channel:
  "ch < 4 \<Longrightarrow>
   get_path self sid (int ch) = Inr (Path (img_path self) (sid @ ''_'' @ channel_colors ! ch @ ''.png''))"
  by (simp add: get_path_def py_getitem_def channel_colors_def)

lemma shape2_square:
  assumes "length b = nrows" and "list_all (\<lambda>row. length row = ncols) b"
  shows "shape2 b = (nrows, ncols)"
proof (cases b)
  case Nil
  with assms(1) show ?thesis by (simp add: nrows_def)
next
  case (Cons r rs)
  with assms show ?thesis by (simp add: shape2_def)
qed

lemma np_stack_axis2_shape:
  assumes "np_stack_axis2 (b # bs) = Inr a"
  shows "has_shape3 a (fst (shape2 b)) (snd (shape2 b)) (Suc (length bs))"
  using assms
  by (auto simp: np_stack_axis2_def has_shape3_def list_all_iff split: if_splits)

lemma has_shape3_map: "has_shape3 (map (map (map f)) a) h w c = has_shape3 a h w c"
  by (auto simp: has_shape3_def list_all_iff)

lemma unit_pixel: "0 \<le> rat_of_nat (unat (v :: 8 word)) / 255 \<and> rat_of_nat (unat v) / 255 \<le> 1"
proof -
  have "unat v < 2 ^ LENGTH(8)" by (rule unsigned_less)
  then have "unat v \<le> 255" by simp
  then have "rat_of_nat (unat v) \<le> rat_of_nat 255" by (simp only: of_nat_le_iff)
  moreover have "0 \<le> rat_of_nat (unat v)" by (rule of_nat_0_le_iff)
  ultimately show ?thesis by (simp only: of_nat_numeral) simp
qed

lemma values_in_unit_pixels:
  "values_in_unit (map (map (map (\<lambda>v :: 8 word. rat_of_nat (unat v) / 255))) a)"
  unfolding values_in_unit_def list_all_iff
proof (intro ballI)
  fix rows row x
  assume "rows \<in> set (map (map (map (\<lambda>v :: 8 word. rat_of_nat (unat v) / 255))) a)"
    and "row \<in> set rows" and "x \<in> set row"
  then obtain v :: "8 word" where "x = rat_of_nat (unat v) / 255"
    by (auto simp del: of_nat_unat)
  then show "0 \<le> x \<and> x \<le> 1" using unit_pixel [of v] by (simp only:)
qed

lemma get_image_valid:
  assumes "valid_sample files self sid"
  shows "\<exists>img. get_image files self sid = Inr img \<and> has_shape3 img nrows ncols n_channels
           \<and> values_in_unit img"
proof -
  let ?p = "\<lambda>color. Path (img_path self) (sid @ ''_'' @ color @ ''.png'')"
  from assms obtain b0 b1 b2 b3 where
    f: "files (?p ''red'') = Some b0" "files (?p ''green'') = Some b1"
       "files (?p ''blue'') = Some b2" "files (?p ''yellow'') = Some b3"
    and s: "length b0 = nrows \<and> list_all (\<lambda>row. length row = ncols) b0"
       "length b1 = nrows \<and> list_all (\<lambda>row. length row = ncols) b1"
       "length b2 = nrows \<and> list_all (\<lambda>row. length row = ncols) b2"
       "length b3 = nrows \<and> list_all (\<lambda>row. length row = ncols) b3"
    by (auto simp: valid_sample_def channel_colors_def split: option.splits)
  have sh: "shape2 b0 = (nrows, ncols)" "shape2 b1 = (nrows, ncols)"
    "shape2 b2 = (nrows, ncols)" "shape2 b3 = (nrows, ncols)"
    using s by (simp_all add: shape2_square)
  have u: "[0..<n_channels] = [0, 1, 2, 3]"
    by (simp add: n_channels_def channels_def upt_conv_Cons)
  have bands: "sequence_res
       (map (\<lambda>chan_ix. (case get_path self sid (int chan_ix) of
                          Inl e \<Rightarrow> Inl e
                        | Inr chan_path \<Rightarrow> Image_open files chan_path))
            [0..<n_channels]) = Inr [b0, b1, b2, b3]"
    unfolding u using f
    by (simp add: get_path_def py_getitem_def channel_colors_def Image_open_def)
  obtain a where a: "np_stack_axis2 [b0, b1, b2, b3] = Inr a"
    by (simp add: np_stack_axis2_def sh)
  have "has_shape3 a nrows ncols n_channels"
    using np_stack_axis2_shape [OF a] by (simp add: sh n_channels_def channels_def)
  then have "has_shape3 (map (map (map (\<lambda>v. rat_of_nat (unat v) / 255))) a) nrows ncols n_channels"
    by (simp only: has_shape3_map)
  moreover have "get_image files self sid
      = Inr (map (map (map (\<lambda>v. rat_of_nat (unat v) / 255))) a)"
    by (simp only: get_image_def bands a sum.case)
  moreover have "values_in_unit (map (map (map (\<lambda>v. rat_of_nat (unat v) / 255))) a)"
    by (rule values_in_unit_pixels)
  ultimately show ?thesis by blast
qed

lemma assign_slot_same_shape:
  assumes "has_shape3 img nrows ncols c"
  shows "assign_slot img = Inr img"
proof -
  have "broadcast_axis nrows img = Inr img"
    using assms by (simp add: broadcast_axis_def has_shape3_def)
  moreover have "sequence_res (map (broadcast_axis ncols) img) = Inr (map (\<lambda>row. row) img)"
    using assms
    by (intro sequence_res_map_Inr) (simp add: broadcast_axis_def has_shape3_def list_all_iff)
  ultimately show ?thesis by (simp add: assign_slot_def)
qed

lemma get_images_valid:
  assumes "list_all (valid_sample files self) ids"
  shows "\<exists>X. get_images files self ids = Inr X
           \<and> map (get_image files self) ids = map Inr X
           \<and> has_shape4 X (length ids) nrows ncols n_channels
           \<and> list_all values_in_unit X"
  using assms
proof (induction ids)
  case Nil
  then show ?case by (simp add: get_images_def has_shape4_def)
next
  case (Cons sid ids)
  then obtain X where X: "get_images files self ids = Inr X"
    "map (get_image files self) ids = map Inr X"
    "has_shape4 X (length ids) nrows ncols n_channels" "list_all values_in_unit X"
    by auto
  from Cons.prems obtain img where img: "get_image files self sid = Inr img"
    "has_shape3 img nrows ncols n_channels" "values_in_unit img"
    using get_image_valid [of files self sid] by auto
  have "get_images files self (sid # ids) = Inr (img # X)"
    using X(1) img(1) assign_slot_same_shape [OF img(2)] by (simp add: get_images_def)
  then show ?case using X img by (simp add: has_shape4_def)
qed

text \<open>
  C8: for every ordered sequence of valid sample ids (each of the four channel files of
  an id exists and holds 512 rows of 512 8-bit pixels), \<^verbatim>\<open>get_images\<close> returns a
  tensor of shape \<open>(n, 512, 512, 4)\<close> whose entries are, in order, the results of
  \<^verbatim>\<open>get_image\<close> on the ids; each of them has shape \<open>(512, 512, 4)\<close> and all its
  values lie between 0 and 1.
\<close>

theorem get_images_stacks_get_image:
  assumes "list_all (valid_sample files self) ids"
  shows "\<exists>X. get_images files self ids = Inr X
           \<and> has_shape4 X (length ids) 512 512 4
           \<and> map (get_image files self) ids = map Inr X
           \<and> list_all (\<lambda>img. has_shape3 img 512 512 4 \<and> values_in_unit img) X"
proof -
  obtain X where X: "get_images files self ids = Inr X"
    "map (get_image files self) ids = map Inr X"
    "has_shape4 X (length ids) nrows ncols n_channels" "list_all values_in_unit X"
    using get_images_valid [OF assms] by blast
  have n: "nrows = 512" "ncols = 512" "n_channels = 4"
    by (simp_all add: nrows_def ncols_def n_channels_def channels_def)
  have "has_shape4 X (length ids) 512 512 4" using X(3) unfolding n .
  moreover from this X(4)
  have "list_all (\<lambda>img. has_shape3 img 512 512 4 \<and> values_in_unit img) X"
    by (simp add: has_shape4_def list_all_iff)
  ultimately show ?thesis using X(1,2) by blast
qed

lemma black_files_valid: "valid_sample black_files self sid"
  by (simp add: valid_sample_def black_files_def channel_colors_def nrows_def ncols_def
      list_all_iff)

theorem get_images_stacks_get_image_witness:
  "list_all (valid_sample black_files (demo_test 2)) [''aa'', ''ab'']
   \<and> \<not> isl (get_images black_files (demo_test 2) [''aa'', ''ab''])
   \<and> has_shape4 (projr (get_images black_files (demo_test 2) [''aa'', ''ab''])) 2 512 512 4
   \<and> map (get_image black_files (demo_test 2)) [''aa'', ''ab'']
       = map Inr (projr (get_images black_files (demo_test 2) [''aa'', ''ab'']))"
proof -
  have v: "list_all (valid_sample black_files (demo_test 2)) [''aa'', ''ab'']"
    by (simp add: black_files_valid)
  obtain X where X: "get_images black_files (demo_test 2) [''aa'', ''ab''] = Inr X"
    and sh: "has_shape4 X (length [''aa'', ''ab'']) 512 512 4"
    and st: "map (get_image black_files (demo_test 2)) [''aa'', ''ab''] = map Inr X"
    using get_images_stacks_get_image [OF v] by blast
  have p: "projr (get_images black_files (demo_test 2) [''aa'', ''ab'']) = X"
    by (simp add: X)
  have l: "length [''aa'', ''ab''] = 2" by simp
  show ?thesis unfolding p using v X sh st unfolding l by simp
qed

section \<open>C6: indexing a batch sequence\<close>

lemma py_getitem_out_of_range:
  "i < - int (length xs) \<or> int (length xs) \<le> i \<Longrightarrow> py_getitem xs i = Inl IndexError"
  by (auto simp: py_getitem_def)

lemma py_getitem_negative:
  "- int (length xs) \<le> i \<Longrightarrow> i < 0 \<Longrightarrow> py_getitem xs i = py_getitem xs (int (length xs) + i)"
  by (auto simp: py_getitem_def)

lemma array_split_length: "array_split ary n = Inr sets \<Longrightarrow> int (length sets) = n"
  by (auto simp: array_split_def Let_def split: if_splits)

lemma TestGenerator_init_len:
  assumes "TestGenerator_init t bs = Inr tg"
  shows "TestGenerator_len (test tg) (test_batch_size tg) = Inr (int (length (test_batch_sets tg)))"
  using assms
  by (auto simp: TestGenerator_init_def split: sum.splits dest: array_split_length)

lemma demo_test_generator:
  "TestGenerator_init (demo_test 3) 2
     = Inr \<lparr>test = demo_test 3, test_batch_size = 2, test_batch_sets = [[0, 1], [2]]\<rparr>"
  by code_simp

lemma demo_test_last_batch:
  "\<not> isl (TestGenerator_getitem black_files
            \<lparr>test = demo_test 3, test_batch_size = 2, test_batch_sets = [[0, 1], [2]]\<rparr> 1)"
proof -
  have "take_rows (index (demo_test 3)) (map int [2]) = Inr [''ac'']"
    by code_simp
  moreover obtain X where "get_images black_files (demo_test 3) [''ac''] = Inr X"
    using get_images_valid [of black_files "demo_test 3" "[''ac'']"]
    by (auto simp: black_files_valid)
  ultimately show ?thesis
    by (simp add: TestGenerator_getitem_def py_getitem_def)
qed

text \<open>
  C6 as stated (\<^verbatim>\<open>get(i)\<close> fails with IndexError for every \<open>i\<close> outside \<open>[0, L)\<close>)
  fails: the batch sets are a Python list, and a negative index counts from its end.
  On a test generator of length 2, \<^verbatim>\<open>get(-1)\<close> returns the batch that \<^verbatim>\<open>get(1)\<close>
  returns.
\<close>

theorem getitem_negative_index_counterexample:
  "TestGenerator_len (test (projr (TestGenerator_init (demo_test 3) 2)))
      (test_batch_size (projr (TestGenerator_init (demo_test 3) 2))) = Inr 2
   \<and> \<not> (0 \<le> (- 1 :: int) \<and> (- 1 :: int) < 2)
   \<and> \<not> isl (TestGenerator_getitem black_files (projr (TestGenerator_init (demo_test 3) 2)) (- 1))
   \<and> TestGenerator_getitem black_files (projr (TestGenerator_init (demo_test 3) 2)) (- 1)
       = TestGenerator_getitem black_files (projr (TestGenerator_init (demo_test 3) 2)) 1"
proof -
  let ?g = "\<lparr>test = demo_test 3, test_batch_size = 2, test_batch_sets = [[0, 1], [2]]\<rparr>"
  have p: "projr (TestGenerator_init (demo_test 3) 2) = ?g"
    by (simp add: demo_test_generator)
  have l: "TestGenerator_len (test ?g) (test_batch_size ?g) = Inr 2"
    by code_simp
  have e: "TestGenerator_getitem black_files ?g (- 1) = TestGenerator_getitem black_files ?g 1"
    by (simp add: TestGenerator_getitem_def py_getitem_def)
  show ?thesis unfolding p using l e demo_test_last_batch by simp
qed

text \<open>
  C6, amended: for every batch sequence (Train or Test generator) with \<open>L\<close> batch sets,
  \<^verbatim>\<open>get(i)\<close> fails with IndexError for \<open>i \<ge> L\<close> and for \<open>i < -L\<close>; for \<open>-L \<le> i < 0\<close>
  it does what \<^verbatim>\<open>get(L + i)\<close> does. \<open>L\<close> is the length the generator reports.
\<close>

theorem getitem_outside_range:
  "(i < - int (length (batch_sets g)) \<or> int (length (batch_sets g)) \<le> i
      \<longrightarrow> TrainGenerator_getitem files g i = Inl IndexError)
   \<and> (i < - int (length (test_batch_sets tg)) \<or> int (length (test_batch_sets tg)) \<le> i
      \<longrightarrow> TestGenerator_getitem files tg i = Inl IndexError)
   \<and> (- int (length (batch_sets g)) \<le> i \<and> i < 0
      \<longrightarrow> TrainGenerator_getitem files g i
          = TrainGenerator_getitem files g (int (length (batch_sets g)) + i))
   \<and> (- int (length (test_batch_sets tg)) \<le> i \<and> i < 0
      \<longrightarrow> TestGenerator_getitem files tg i
          = TestGenerator_getitem files tg (int (length (test_batch_sets tg)) + i))
   \<and> TrainGenerator_len g = length (batch_sets g)
   \<and> (TestGenerator_init t bs = Inr tg
      \<longrightarrow> TestGenerator_len (test tg) (test_batch_size tg)
          = Inr (int (length (test_batch_sets tg))))"
proof (intro conjI impI)
  assume "i < - int (length (batch_sets g)) \<or> int (length (batch_sets g)) \<le> i"
  then show "TrainGenerator_getitem files g i = Inl IndexError"
    by (simp add: TrainGenerator_getitem_def py_getitem_out_of_range)
next
  assume "i < - int (length (test_batch_sets tg)) \<or> int (length (test_batch_sets tg)) \<le> i"
  then show "TestGenerator_getitem files tg i = Inl IndexError"
    by (simp add: TestGenerator_getitem_def py_getitem_out_of_range)
next
  assume "- int (length (batch_sets g)) \<le> i \<and> i < 0"
  then show "TrainGenerator_getitem files g i
      = TrainGenerator_getitem files g (int (length (batch_sets g)) + i)"
    by (simp add: TrainGenerator_getitem_def py_getitem_negative)
next
  assume "- int (length (test_batch_sets tg)) \<le> i \<and> i < 0"
  then show "TestGenerator_getitem files tg i
      = TestGenerator_getitem files tg (int (length (test_batch_sets tg)) + i)"
    by (simp add: TestGenerator_getitem_def py_getitem_negative)
next
  show "TrainGenerator_len g = length (batch_sets g)"
    by (simp add: TrainGenerator_len_def)
next
  assume "TestGenerator_init t bs = Inr tg"
  then show "TestGenerator_len (test tg) (test_batch_size tg)
      = Inr (int (length (test_batch_sets tg)))"
    by (rule TestGenerator_init_len)
qed

theorem getitem_outside_range_witness:
  "TestGenerator_init (demo_test 3) 2
     = Inr \<lparr>test = demo_test 3, test_batch_size = 2, test_batch_sets = [[0, 1], [2]]\<rparr>
   \<and> TestGenerator_getitem black_files
        \<lparr>test = demo_test 3, test_batch_size = 2, test_batch_sets = [[0, 1], [2]]\<rparr> 2
       = Inl IndexError
   \<and> TestGenerator_getitem black_files
        \<lparr>test = demo_test 3, test_batch_size = 2, test_batch_sets = [[0, 1], [2]]\<rparr> (- 3)
       = Inl IndexError
   \<and> TrainGenerator_getitem black_files
        (projr (TrainGenerator_init contiguous_folds (demo_train 40) (map int [0..<40]) 32)) 2
       = Inl IndexError
   \<and> TestGenerator_len (demo_test 3) 2 = Inr 2"
proof -
  let ?tg = "\<lparr>test = demo_test 3, test_batch_size = 2, test_batch_sets = [[0, 1], [2]]\<rparr>"
  let ?g = "projr (TrainGenerator_init contiguous_folds (demo_train 40) (map int [0..<40]) 32)"
  have n: "length (batch_sets ?g) = 2" by code_simp
  have a: "TestGenerator_getitem black_files ?tg 2 = Inl IndexError"
    using getitem_outside_range [where i = 2 and g = ?g and tg = ?tg and files = black_files and t = "demo_test 3" and bs = 2] by simp
  have b: "TestGenerator_getitem black_files ?tg (- 3) = Inl IndexError"
    using getitem_outside_range [where i = "- 3" and g = ?g and tg = ?tg and files = black_files and t = "demo_test 3" and bs = 2] by simp
  have c: "TrainGenerator_getitem black_files ?g 2 = Inl IndexError"
    using getitem_outside_range [where i = 2 and g = ?g and tg = ?tg and files = black_files and t = "demo_test 3" and bs = 2] n by simp
  have d: "TestGenerator_len (demo_test 3) 2 = Inr 2"
    using getitem_outside_range [where i = 2 and g = ?g and tg = ?tg and files = black_files and t = "demo_test 3" and bs = 2] demo_test_generator by simp
  show ?thesis using a b c d demo_test_generator by blast
qed

end
